theory Spec2Isabelle
  imports Complex_Main "HOL-Library.AList" "HOL-Library.Multiset" "HOL-Library.Sublist"
begin

section \<open>Values and exceptions of the Python program\<close>

text \<open>
  The program of \<^verbatim>\<open>vision_meal_analyzer.py\<close> passes untyped Python values around:
  the parsed JSON payload of the lookup service, the dictionary built by the estimator,
  and \<^verbatim>\<open>None\<close>. They are modelled by one datatype. A dictionary is an association
  list in insertion order, read with \<open>map_of\<close> and written with \<open>AList.update\<close>
  (which overwrites an existing key in place, as a Python dict does). A number is one of
  Python's unbounded integers or a float.

  A Python float is an IEEE 754 binary64 value: \<open>Fin m e\<close> stands for the finite value
  \<open>m * 2 ^ e\<close>, \<open>Inf s\<close> for an infinity (negative when \<open>s\<close> holds), \<open>NaN\<close> for
  not-a-number. The two zeros are not told apart: the aggregator starts from the integer 0,
  so none of its sums is the negative zero, and adding either zero changes no sum.
\<close>

datatype pyfloat = Fin int int | Inf bool | NaN

datatype pyval =
    PNone
  | PBool bool
  | PInt int
  | PFloat pyfloat
  | PStr string
  | PList "pyval list"
  | PDict "(string \<times> pyval) list"

text \<open>Every exception the modelled functions can raise is a value of this type.\<close>

datatype error =
    KeyError string
  | TypeError
  | NameError string
  | OverflowError
  | JSONDecodeError
  | RequestException

text \<open>Sequencing of statements that may raise: the first exception ends the run.\<close>

definition and_then :: "error + 'a \<Rightarrow> ('a \<Rightarrow> error + 'b) \<Rightarrow> error + 'b" where
  "and_then r f = (case r of Inl e \<Rightarrow> Inl e | Inr x \<Rightarrow> f x)"

text \<open>Python's truth value of an object, as tested by \<^verbatim>\<open>if data:\<close> and \<^verbatim>\<open>if not data:\<close>.\<close>

fun truthy :: "pyval \<Rightarrow> bool" where
  "truthy PNone = False"
| "truthy (PBool b) = b"
| "truthy (PInt n) = (n \<noteq> 0)"
| "truthy (PFloat x) = (case x of Fin m e \<Rightarrow> m \<noteq> 0 | _ \<Rightarrow> True)"
| "truthy (PStr s) = (s \<noteq> [])"
| "truthy (PList xs) = (xs \<noteq> [])"
| "truthy (PDict kvs) = (kvs \<noteq> [])"

text \<open>
  \<^verbatim>\<open>data[key]\<close> with a string key: a dictionary looks the key up and raises KeyError
  when it is missing; every other value raises TypeError (not subscriptable, or indices
  must be integers).
\<close>

fun subscript :: "pyval \<Rightarrow> string \<Rightarrow> error + pyval" where
  "subscript (PDict kvs) k = (case map_of kvs k of None \<Rightarrow> Inl (KeyError k) | Some v \<Rightarrow> Inr v)"
| "subscript _ k = Inl TypeError"

subsection \<open>Float addition\<close>

text \<open>
  Addition of two floats is the exact sum rounded to the nearest binary64 value, ties to
  the even significand: at most 53 significant bits, no bit below \<open>2 ^ - 1074\<close>, and
  an infinity from \<open>2 ^ 1024\<close> on. \<open>bit_length\<close> is Python's \<^verbatim>\<open>int.bit_length\<close>;
  \<open>round_half_even m s\<close> is \<open>m / 2 ^ s\<close> rounded to the nearest integer, ties to even;
  \<open>canonical\<close> writes a finite value with an odd significand (zero as \<open>Fin 0 0\<close>), so
  that equal values are equal terms.
\<close>

fun bit_length :: "nat \<Rightarrow> nat" where
  "bit_length n = (if n = 0 then 0 else Suc (bit_length (n div 2)))"

declare bit_length.simps [simp del]

definition round_half_even :: "int \<Rightarrow> nat \<Rightarrow> int" where
  "round_half_even m s =
     (let q = m div 2 ^ s; r = m mod 2 ^ s in
      if 2 * r < 2 ^ s then q
      else if 2 * r > 2 ^ s then q + 1
      else if even q then q else q + 1)"

function canonical :: "int \<Rightarrow> int \<Rightarrow> pyfloat" where
  "canonical m e =
     (if m = 0 then Fin 0 0
      else if even m then canonical (m div 2) (e + 1)
      else Fin m e)"
  by pat_completeness auto
termination
  by (relation "measure (\<lambda>(m, e). nat \<bar>m\<bar>)") auto

declare canonical.simps [simp del]

text \<open>The binary64 value nearest to \<open>m * 2 ^ e\<close>.\<close>

definition round_double :: "int \<Rightarrow> int \<Rightarrow> pyfloat" where
  "round_double m e =
     (let s = max 0 (max (int (bit_length (nat \<bar>m\<bar>)) - 53) (- 1074 - e));
          m' = round_half_even m (nat s);
          e' = e + s
      in if int (bit_length (nat \<bar>m'\<bar>)) + e' > 1024 then Inf (m < 0)
         else canonical m' e')"

fun fadd :: "pyfloat \<Rightarrow> pyfloat \<Rightarrow> pyfloat" where
  "fadd (Fin m1 e1) (Fin m2 e2) =
     (let e = min e1 e2
      in round_double (m1 * 2 ^ nat (e1 - e) + m2 * 2 ^ nat (e2 - e)) e)"
| "fadd NaN _ = NaN"
| "fadd _ NaN = NaN"
| "fadd (Inf s) (Inf t) = (if s = t then Inf s else NaN)"
| "fadd (Inf s) (Fin _ _) = Inf s"
| "fadd (Fin _ _) (Inf t) = Inf t"

text \<open>
  An integer that meets a float in \<^verbatim>\<open>+\<close> is converted first: to the nearest float,
  or OverflowError when that is out of range.
\<close>

definition int_to_float :: "int \<Rightarrow> error + pyfloat" where
  "int_to_float n = (case round_double n 0 of Inf s \<Rightarrow> Inl OverflowError | x \<Rightarrow> Inr x)"

text \<open>
  The value stored under a key of the totals dictionary is an integer or a float.
  \<open>num_add a v\<close> is \<^verbatim>\<open>a + v\<close> for such a number \<open>a\<close>: two integers add exactly, a
  boolean counts as the integer 0 or 1 (\<^verbatim>\<open>bool\<close> is a subclass of \<^verbatim>\<open>int\<close>), a float
  on either side makes it a float addition, anything else raises TypeError.
\<close>

datatype number = NInt int | NFloat pyfloat

fun num_add :: "number \<Rightarrow> pyval \<Rightarrow> error + number" where
  "num_add (NInt a) (PInt b) = Inr (NInt (a + b))"
| "num_add (NInt a) (PBool b) = Inr (NInt (a + (if b then 1 else 0)))"
| "num_add (NInt a) (PFloat y) = and_then (int_to_float a) (\<lambda>x. Inr (NFloat (fadd x y)))"
| "num_add (NFloat x) (PInt b) = and_then (int_to_float b) (\<lambda>y. Inr (NFloat (fadd x y)))"
| "num_add (NFloat x) (PBool b) = Inr (NFloat (fadd x (Fin (if b then 1 else 0) 0)))"
| "num_add (NFloat x) (PFloat y) = Inr (NFloat (fadd x y))"
| "num_add _ _ = Inl TypeError"

section \<open>The aggregator\<close>

text \<open>
  The totals dictionary maps the four field names to numbers: it starts at the integer 0
  everywhere and only sums are ever stored into it.
\<close>

type_synonym totals = "(string \<times> number) list"

text \<open>One statement \<^verbatim>\<open>totals[k] += data[k]\<close> of the loop body.\<close>

definition add_field :: "string \<Rightarrow> pyval \<Rightarrow> totals \<Rightarrow> error + totals" where
  "add_field k data t =
     (case map_of t k of
        None \<Rightarrow> Inl (KeyError k)
      | Some a \<Rightarrow>
          and_then (subscript data k) (\<lambda>v.
          and_then (num_add a v) (\<lambda>s.
          Inr (AList.update k s t))))"

text \<open>The four statements guarded by \<^verbatim>\<open>if data:\<close>, in the order of the source.\<close>

definition add_record :: "pyval \<Rightarrow> totals \<Rightarrow> error + totals" where
  "add_record data t =
     and_then (add_field ''calories'' data t) (\<lambda>t1.
     and_then (add_field ''protein_g'' data t1) (\<lambda>t2.
     and_then (add_field ''fat_g'' data t2) (\<lambda>t3.
     add_field ''carbs_g'' data t3)))"

text \<open>The \<^verbatim>\<open>for data in nutrition_data_list\<close> loop, with the totals as accumulator.\<close>

fun totals_loop :: "totals \<Rightarrow> pyval list \<Rightarrow> error + totals" where
  "totals_loop t [] = Inr t"
| "totals_loop t (data # rest) =
     (if truthy data
      then and_then (add_record data t) (\<lambda>t'. totals_loop t' rest)
      else totals_loop t rest)"

definition calculate_totals :: "pyval list \<Rightarrow> error + totals" where
  "calculate_totals nutrition_data_list =
     totals_loop [(''calories'', NInt 0), (''protein_g'', NInt 0), (''fat_g'', NInt 0),
                  (''carbs_g'', NInt 0)]
       nutrition_data_list"

subsection \<open>Nutrition records and the field-wise sum of the specification\<close>

text \<open>
  An integer record is a Nutrition Record all of whose fields are integers: a dictionary
  that holds an integer under each of the four field names (in any order, other keys
  allowed). \<open>field_sum\<close> is the specification's field-wise sum over the non-null
  entries of a list of such records.
\<close>

definition int_field :: "string \<Rightarrow> pyval \<Rightarrow> int option" where
  "int_field k d =
     (case d of
        PDict kvs \<Rightarrow> (case map_of kvs k of Some (PInt n) \<Rightarrow> Some n | _ \<Rightarrow> None)
      | _ \<Rightarrow> None)"

definition integer_record :: "pyval \<Rightarrow> bool" where
  "integer_record d =
     (int_field ''calories'' d \<noteq> None \<and> int_field ''protein_g'' d \<noteq> None \<and>
      int_field ''fat_g'' d \<noteq> None \<and> int_field ''carbs_g'' d \<noteq> None)"

definition entry_ok :: "pyval \<Rightarrow> bool" where
  "entry_ok d = (d = PNone \<or> integer_record d)"

definition field_value :: "string \<Rightarrow> pyval \<Rightarrow> int" where
  "field_value k d = (case int_field k d of Some n \<Rightarrow> n | None \<Rightarrow> 0)"

definition field_sum :: "string \<Rightarrow> pyval list \<Rightarrow> int" where
  "field_sum k ds = sum_list (map (field_value k) (filter (\<lambda>d. d \<noteq> PNone) ds))"

definition totals_of :: "int \<Rightarrow> int \<Rightarrow> int \<Rightarrow> int \<Rightarrow> totals" where
  "totals_of c p f b =
     [(''calories'', NInt c), (''protein_g'', NInt p), (''fat_g'', NInt f), (''carbs_g'', NInt b)]"

text \<open>
  For records with float fields the specification's sum is the sum of the exact values:
  \<open>exact_value\<close> is the rational number a field stands for, \<open>exact_field_sum\<close> the
  sum of one field over the non-null entries, and \<open>number_value\<close> the rational number a
  total stands for.
\<close>

definition float_value :: "pyfloat \<Rightarrow> rat option" where
  "float_value x = (case x of Fin m e \<Rightarrow> Some (of_int m * 2 powi e) | _ \<Rightarrow> None)"

definition exact_value :: "string \<Rightarrow> pyval \<Rightarrow> rat option" where
  "exact_value k d =
     (case subscript d k of
        Inr (PInt n) \<Rightarrow> Some (of_int n)
      | Inr (PFloat x) \<Rightarrow> float_value x
      | _ \<Rightarrow> None)"

definition exact_field_sum :: "string \<Rightarrow> pyval list \<Rightarrow> rat" where
  "exact_field_sum k ds =
     sum_list (map (\<lambda>d. case exact_value k d of Some v \<Rightarrow> v | None \<Rightarrow> 0)
                 (filter (\<lambda>d. d \<noteq> PNone) ds))"

definition number_value :: "number \<Rightarrow> rat option" where
  "number_value a = (case a of NInt n \<Rightarrow> Some (of_int n) | NFloat x \<Rightarrow> float_value x)"

section \<open>The nutrition resolver\<close>

text \<open>
  The two credentials are read from the environment with \<^verbatim>\<open>os.getenv\<close>, which
  yields \<^verbatim>\<open>None\<close> for an unset variable.
\<close>

record config =
  nutritionix_app_id :: "string option"
  nutritionix_api_key :: "string option"

definition env_value :: "string option \<Rightarrow> pyval" where
  "env_value v = (case v of None \<Rightarrow> PNone | Some s \<Rightarrow> PStr s)"

text \<open>
  What \<^verbatim>\<open>requests.post(url, headers=headers, json=data)\<close> is given, and what the
  program reads of the answer: the status code and the outcome of \<^verbatim>\<open>response.json()\<close>
  (the parsed payload, or the decoder's exception).
\<close>

record request =
  url :: string
  headers :: "(string \<times> pyval) list"
  json :: pyval

record response =
  status_code :: int
  json_result :: "error + pyval"

text \<open>
  The lookup service is a parameter: given the requests made before and the present one,
  it answers or the call raises. The world records every request handed to the service
  and every call of the estimator.
\<close>

type_synonym service = "request list \<Rightarrow> request \<Rightarrow> error + response"

record world =
  sent :: "request list"
  estimator_calls :: "(string \<times> string) list"

definition nutrition_request :: "config \<Rightarrow> string \<Rightarrow> string \<Rightarrow> request" where
  "nutrition_request cfg ingredient quantity =
     \<lparr>url = ''https://trackapi.nutritionix.com/v2/natural/nutrients'',
      headers = [(''x-app-id'', env_value (nutritionix_app_id cfg)),
                 (''x-app-key'', env_value (nutritionix_api_key cfg)),
                 (''Content-Type'', PStr ''application/json'')],
      json = PDict [(''query'', PStr (quantity @ '' of '' @ ingredient))]\<rparr>"

definition get_nutrition_data ::
  "config \<Rightarrow> service \<Rightarrow> string \<Rightarrow> string \<Rightarrow> world \<Rightarrow> (error + pyval) \<times> world" where
  "get_nutrition_data cfg svc ingredient quantity w =
     (let req = nutrition_request cfg ingredient quantity;
          w' = w\<lparr>sent := sent w @ [req]\<rparr>
      in case svc (sent w) req of
           Inl e \<Rightarrow> (Inl e, w')
         | Inr resp \<Rightarrow>
             if status_code resp = 200 then (json_result resp, w') else (Inr PNone, w'))"

text \<open>
  The estimator builds a prompt string that it never uses and returns a fixed dictionary;
  the model argument is not consulted.
\<close>

definition estimate_macronutrients_with_vision_model ::
  "'m \<Rightarrow> string \<Rightarrow> string \<Rightarrow> world \<Rightarrow> pyval \<times> world" where
  "estimate_macronutrients_with_vision_model model ingredient quantity w =
     (PDict [(''calories'', PInt 250), (''protein_g'', PInt 30), (''fat_g'', PInt 8),
             (''carbs_g'', PInt 5)],
      w\<lparr>estimator_calls := estimator_calls w @ [(ingredient, quantity)]\<rparr>)"

text \<open>
  The body of the loop of \<^verbatim>\<open>main\<close>: the lookup, then \<^verbatim>\<open>if not data:\<close> the
  estimator. \<open>main_loop\<close> is the loop itself, appending each resolved value to
  \<^verbatim>\<open>nutrition_data\<close>; an exception ends it.
\<close>

definition resolve_nutrition ::
  "config \<Rightarrow> service \<Rightarrow> 'm \<Rightarrow> string \<Rightarrow> string \<Rightarrow> world \<Rightarrow> (error + pyval) \<times> world" where
  "resolve_nutrition cfg svc model ingredient quantity w =
     (case get_nutrition_data cfg svc ingredient quantity w of
        (Inl e, w1) \<Rightarrow> (Inl e, w1)
      | (Inr data, w1) \<Rightarrow>
          if \<not> truthy data
          then (case estimate_macronutrients_with_vision_model model ingredient quantity w1 of
                  (data', w2) \<Rightarrow> (Inr data', w2))
          else (Inr data, w1))"

fun main_loop ::
  "config \<Rightarrow> service \<Rightarrow> 'm \<Rightarrow> (string \<times> string) list \<Rightarrow> pyval list \<Rightarrow> world
     \<Rightarrow> (error + pyval list) \<times> world" where
  "main_loop cfg svc model [] nutrition_data w = (Inr nutrition_data, w)"
| "main_loop cfg svc model ((ingredient, quantity) # rest) nutrition_data w =
     (case resolve_nutrition cfg svc model ingredient quantity w of
        (Inl e, w1) \<Rightarrow> (Inl e, w1)
      | (Inr data, w1) \<Rightarrow> main_loop cfg svc model rest (nutrition_data @ [data]) w1)"

text \<open>Mocked services and a starting world for concrete runs.\<close>

definition mock_service :: "int \<Rightarrow> pyval \<Rightarrow> service" where
  "mock_service code payload earlier req = Inr \<lparr>status_code = code, json_result = Inr payload\<rparr>"


definition no_credentials :: config where
  "no_credentials = \<lparr>nutritionix_app_id = None, nutritionix_api_key = None\<rparr>"

definition fresh_world :: world where
  "fresh_world = \<lparr>sent = [], estimator_calls = []\<rparr>"

section \<open>The response renderer\<close>

text \<open>Decimal text of an integer, as \<^verbatim>\<open>str\<close> and an f-string produce it.\<close>

definition digit_char :: "nat \<Rightarrow> char" where
  "digit_char n = ''0123456789'' ! n"

fun str_nat :: "nat \<Rightarrow> string" where
  "str_nat n = (if n < 10 then [digit_char n] else str_nat (n div 10) @ [digit_char (n mod 10)])"

declare str_nat.simps [simp del]

definition str_int :: "int \<Rightarrow> string" where
  "str_int i = (if i < 0 then CHR ''-'' # str_nat (nat (- i)) else str_nat (nat i))"

definition nl :: string where
  "nl = [CHR 0x0A]"

text \<open>\<^verbatim>\<open>sep.join(xs)\<close> for a list of strings.\<close>

fun join :: "string \<Rightarrow> string list \<Rightarrow> string" where
  "join sep [] = []"
| "join sep [x] = x"
| "join sep (x # y # ys) = x @ sep @ join sep (y # ys)"

record health_assessment =
  is_healthy :: bool
  suggestions :: "string list"

text \<open>
  The renderer calls \<^verbatim>\<open>summarize_nutrition\<close>, a name that the module binds nowhere:
  no \<^verbatim>\<open>def\<close>, no import and no assignment introduces it, and it is not a builtin.
  Evaluating the call therefore raises NameError before any argument is looked at.
\<close>

definition summarize_nutrition :: "string \<Rightarrow> string \<Rightarrow> pyval \<Rightarrow> error + string" where
  "summarize_nutrition ingredient quantity data = Inl (NameError ''summarize_nutrition'')"

text \<open>The loop over \<^verbatim>\<open>zip(ingredients.items(), nutrition_data)\<close>, with the text so far.\<close>

fun summary_lines :: "string \<Rightarrow> ((string \<times> string) \<times> pyval) list \<Rightarrow> error + string" where
  "summary_lines resp [] = Inr resp"
| "summary_lines resp ((ingredient, data) # rest) =
     and_then (summarize_nutrition (fst ingredient) (snd ingredient) data) (\<lambda>line.
     summary_lines (resp @ line @ nl) rest)"

text \<open>
  A replacement field \<^verbatim>\<open>{totals['k']}\<close> of an f-string. The renderer is modelled for
  totals whose values are integers; the decimal text of a float is not modelled.
\<close>

definition total_text :: "(string \<times> int) list \<Rightarrow> string \<Rightarrow> error + string" where
  "total_text t k = (case map_of t k of None \<Rightarrow> Inl (KeyError k) | Some n \<Rightarrow> Inr (str_int n))"

definition generate_chatbot_response ::
  "(string \<times> string) list \<Rightarrow> pyval list \<Rightarrow> (string \<times> int) list \<Rightarrow> health_assessment
     \<Rightarrow> error + string" where
  "generate_chatbot_response ingredients nutrition_data totals assessment =
     and_then (summary_lines (''Here'' @ [CHR 0x27] @ ''s the analysis of your meal:'' @ nl @ nl)
                 (zip ingredients nutrition_data)) (\<lambda>r1.
     and_then (total_text totals ''calories'') (\<lambda>c.
     let r2 = r1 @ nl @ ''**Total Macronutrients**:'' @ nl @ ''- Calories: '' @ c @ '' kcal'' @ nl in
     and_then (total_text totals ''protein_g'') (\<lambda>p.
     and_then (total_text totals ''fat_g'') (\<lambda>f.
     let r3 = r2 @ ''- Protein: '' @ p @ ''g'' @ nl @ ''- Fat: '' @ f @ ''g'' @ nl in
     and_then (total_text totals ''carbs_g'') (\<lambda>b.
     let r4 = r3 @ ''- Carbs: '' @ b @ ''g'' @ nl @ nl in
     if \<not> is_healthy assessment
     then Inr (r4 @ ''This meal is **unhealthy**. Here are some healthier alternatives:'' @ nl
                  @ join nl (suggestions assessment) @ nl)
     else Inr (r4 @ ''This meal is **healthy**. Great choice!'' @ nl))))))"

section \<open>Roundings used below\<close>

lemma round_double_zero: "round_double 0 0 = Fin 0 0"
  by (simp add: round_double_def round_half_even_def bit_length.simps canonical.simps Let_def)

lemma round_double_one: "round_double 1 0 = Fin 1 0"
  by (simp add: round_double_def round_half_even_def bit_length.simps canonical.simps Let_def)

lemma round_double_1e16: "round_double 10000000000000000 0 = Fin 152587890625 16"
  by (simp add: round_double_def round_half_even_def bit_length.simps canonical.simps Let_def)

text \<open>\<open>10 ^ 16 + 1\<close> needs 54 bits and lies halfway between two floats: it rounds to \<open>10 ^ 16\<close>.\<close>

lemma round_double_1e16_plus_1: "round_double 10000000000000001 0 = Fin 152587890625 16"
  by (simp add: round_double_def round_half_even_def bit_length.simps canonical.simps Let_def)

lemma int_to_float_zero: "int_to_float 0 = Inr (Fin 0 0)"
  by (simp add: int_to_float_def round_double_zero)

section \<open>Properties of the aggregator\<close>

lemma integer_record_truthy: "integer_record d \<Longrightarrow> truthy d"
  by (cases d) (auto simp: integer_record_def int_field_def)

lemma add_field_int:
  assumes "int_field k d = Some n" and "map_of t k = Some (NInt a)"
  shows "add_field k d t = Inr (AList.update k (NInt (a + n)) t)"
proof -
  from assms(1) obtain kvs where d: "d = PDict kvs" and kv: "map_of kvs k = Some (PInt n)"
    by (auto simp: int_field_def split: pyval.splits option.splits)
  show ?thesis
    using assms(2) kv by (simp add: add_field_def and_then_def d)
qed

lemma add_record_totals_of:
  assumes "integer_record d"
  shows "add_record d (totals_of c p f b) =
           Inr (totals_of (c + field_value ''calories'' d) (p + field_value ''protein_g'' d)
                  (f + field_value ''fat_g'' d) (b + field_value ''carbs_g'' d))"
proof -
  from assms obtain nc np nf nb where
    fs: "int_field ''calories'' d = Some nc" "int_field ''protein_g'' d = Some np"
        "int_field ''fat_g'' d = Some nf" "int_field ''carbs_g'' d = Some nb"
    by (auto simp: integer_record_def)
  have 1: "add_field ''calories'' d (totals_of c p f b) = Inr (totals_of (c + nc) p f b)"
    by (simp add: add_field_int [OF fs(1)] totals_of_def)
  have 2: "add_field ''protein_g'' d (totals_of (c + nc) p f b) = Inr (totals_of (c + nc) (p + np) f b)"
    by (simp add: add_field_int [OF fs(2)] totals_of_def)
  have 3: "add_field ''fat_g'' d (totals_of (c + nc) (p + np) f b)
             = Inr (totals_of (c + nc) (p + np) (f + nf) b)"
    by (simp add: add_field_int [OF fs(3)] totals_of_def)
  have 4: "add_field ''carbs_g'' d (totals_of (c + nc) (p + np) (f + nf) b)
             = Inr (totals_of (c + nc) (p + np) (f + nf) (b + nb))"
    by (simp add: add_field_int [OF fs(4)] totals_of_def)
  show ?thesis
    by (simp add: add_record_def and_then_def 1 2 3 4 field_value_def fs)
qed

lemma totals_loop_records:
  assumes "\<forall>d \<in> set ds. entry_ok d"
  shows "totals_loop (totals_of c p f b) ds =
           Inr (totals_of (c + field_sum ''calories'' ds) (p + field_sum ''protein_g'' ds)
                  (f + field_sum ''fat_g'' ds) (b + field_sum ''carbs_g'' ds))"
  using assms
proof (induction ds arbitrary: c p f b)
  case Nil
  show ?case by (simp add: field_sum_def)
next
  case (Cons d ds)
  then have rest: "\<forall>x \<in> set ds. entry_ok x" and hd: "entry_ok d"
    by simp_all
  show ?case
  proof (cases "d = PNone")
    case True
    then show ?thesis
      using Cons.IH [OF rest] by (simp add: field_sum_def)
  next
    case False
    with hd have r: "integer_record d"
      by (simp add: entry_ok_def)
    show ?thesis
      using False integer_record_truthy [OF r]
      by (simp add: add_record_totals_of [OF r] and_then_def Cons.IH [OF rest] field_sum_def
            add.assoc)
  qed
qed

lemma calculate_totals_records:
  assumes "\<forall>d \<in> set ds. entry_ok d"
  shows "calculate_totals ds =
           Inr (totals_of (field_sum ''calories'' ds) (field_sum ''protein_g'' ds)
                  (field_sum ''fat_g'' ds) (field_sum ''carbs_g'' ds))"
  using totals_loop_records [OF assms, of 0 0 0 0]
  by (simp add: calculate_totals_def totals_of_def)

lemma field_sum_mset:
  assumes "mset ds' = mset ds"
  shows "field_sum k ds' = field_sum k ds"
proof -
  have "mset (map (field_value k) (filter (\<lambda>d. d \<noteq> PNone) ds'))
          = mset (map (field_value k) (filter (\<lambda>d. d \<noteq> PNone) ds))"
    using assms by (simp add: mset_filter)
  then have "sum_mset (mset (map (field_value k) (filter (\<lambda>d. d \<noteq> PNone) ds')))
          = sum_mset (mset (map (field_value k) (filter (\<lambda>d. d \<noteq> PNone) ds)))"
    by simp
  then show ?thesis
    unfolding field_sum_def sum_mset_sum_list .
qed

lemma totals_loop_skip_none:
  "totals_loop t (xs @ PNone # ys) = totals_loop t (xs @ ys)"
proof (induction xs arbitrary: t)
  case Nil
  show ?case by simp
next
  case (Cons x xs)
  show ?case
  proof (cases "truthy x")
    case True
    then show ?thesis
      by (cases "add_record x t") (simp_all add: and_then_def Cons.IH)
  next
    case False
    then show ?thesis by (simp add: Cons.IH)
  qed
qed

text \<open>
  Claim C1, as amended. For every list whose entries are null or Nutrition Records with
  integer fields, the totals returned by \<open>calculate_totals\<close> hold, under each of the
  four field names, the sum of that field over the non-null records of the list.
\<close>

theorem calculate_totals_field_wise_sum:
  assumes "\<forall>d \<in> set ds. entry_ok d"
  shows "calculate_totals ds =
           Inr [(''calories'', NInt (field_sum ''calories'' ds)),
                (''protein_g'', NInt (field_sum ''protein_g'' ds)),
                (''fat_g'', NInt (field_sum ''fat_g'' ds)),
                (''carbs_g'', NInt (field_sum ''carbs_g'' ds))]"
  using calculate_totals_records [OF assms] by (simp add: totals_of_def)

theorem calculate_totals_field_wise_sum_witness:
  "integer_record
     (PDict [(''carbs_g'', PInt 5), (''calories'', PInt 250), (''protein_g'', PInt 30),
             (''fat_g'', PInt 8)]) \<and>
   integer_record
     (PDict [(''calories'', PInt 50), (''protein_g'', PInt 4), (''fat_g'', PInt 0),
             (''carbs_g'', PInt 10), (''fiber_g'', PInt 3)]) \<and>
   calculate_totals
     [PDict [(''carbs_g'', PInt 5), (''calories'', PInt 250), (''protein_g'', PInt 30),
             (''fat_g'', PInt 8)],
      PNone,
      PDict [(''calories'', PInt 50), (''protein_g'', PInt 4), (''fat_g'', PInt 0),
             (''carbs_g'', PInt 10), (''fiber_g'', PInt 3)]]
     = Inr [(''calories'', NInt 300), (''protein_g'', NInt 34), (''fat_g'', NInt 8),
            (''carbs_g'', NInt 15)]"
  using calculate_totals_field_wise_sum
    [of "[PDict [(''carbs_g'', PInt 5), (''calories'', PInt 250), (''protein_g'', PInt 30),
                 (''fat_g'', PInt 8)],
          PNone,
          PDict [(''calories'', PInt 50), (''protein_g'', PInt 4), (''fat_g'', PInt 0),
                 (''carbs_g'', PInt 10), (''fiber_g'', PInt 3)]]"]
  by (simp add: entry_ok_def integer_record_def int_field_def field_sum_def field_value_def)

text \<open>
  Claim C1 as it was stated fails on records with float fields. The calories
  \<^verbatim>\<open>1e16\<close>, \<^verbatim>\<open>1.0\<close> and \<^verbatim>\<open>-1e16\<close> have the sum 1, and the loop returns the
  total \<^verbatim>\<open>0.0\<close>: the first addition rounds \<open>10 ^ 16 + 1\<close> back to \<open>10 ^ 16\<close>.
\<close>

theorem calculate_totals_float_sum_inexact:
  "calculate_totals
     [PDict [(''calories'', PFloat (Fin 10000000000000000 0)), (''protein_g'', PInt 0),
             (''fat_g'', PInt 0), (''carbs_g'', PInt 0)],
      PDict [(''calories'', PFloat (Fin 1 0)), (''protein_g'', PInt 0),
             (''fat_g'', PInt 0), (''carbs_g'', PInt 0)],
      PDict [(''calories'', PFloat (Fin (- 10000000000000000) 0)), (''protein_g'', PInt 0),
             (''fat_g'', PInt 0), (''carbs_g'', PInt 0)]]
     = Inr [(''calories'', NFloat (Fin 0 0)), (''protein_g'', NInt 0), (''fat_g'', NInt 0),
            (''carbs_g'', NInt 0)] \<and>
   number_value (NFloat (Fin 0 0)) = Some 0 \<and>
   exact_field_sum ''calories''
     [PDict [(''calories'', PFloat (Fin 10000000000000000 0)), (''protein_g'', PInt 0),
             (''fat_g'', PInt 0), (''carbs_g'', PInt 0)],
      PDict [(''calories'', PFloat (Fin 1 0)), (''protein_g'', PInt 0),
             (''fat_g'', PInt 0), (''carbs_g'', PInt 0)],
      PDict [(''calories'', PFloat (Fin (- 10000000000000000) 0)), (''protein_g'', PInt 0),
             (''fat_g'', PInt 0), (''carbs_g'', PInt 0)]]
     = 1"
  by (simp add: calculate_totals_def add_record_def add_field_def and_then_def
        int_to_float_zero Let_def round_double_zero round_double_1e16
        round_double_1e16_plus_1
        number_value_def float_value_def exact_field_sum_def exact_value_def)

text \<open>
  Claim C3, as amended. On Nutrition Records with integer fields (null entries allowed)
  aggregation does not depend on the order of the list: for every such list and every
  permutation of it, \<open>calculate_totals\<close> returns the same totals on both.
\<close>

theorem calculate_totals_order_independent:
  assumes "mset ds' = mset ds" and "\<forall>d \<in> set ds. entry_ok d"
  shows "calculate_totals ds' = calculate_totals ds"
proof -
  from assms have ok': "\<forall>d \<in> set ds'. entry_ok d"
    by (metis set_mset_mset)
  show ?thesis
    by (simp add: calculate_totals_records [OF ok'] calculate_totals_records [OF assms(2)]
          field_sum_mset [OF assms(1)])
qed

theorem calculate_totals_order_independent_witness:
  "mset [PDict [(''calories'', PInt 50), (''protein_g'', PInt 4), (''fat_g'', PInt 0),
                (''carbs_g'', PInt 10)],
         PNone,
         PDict [(''calories'', PInt 250), (''protein_g'', PInt 30), (''fat_g'', PInt 8),
                (''carbs_g'', PInt 5)]]
     = mset [PDict [(''calories'', PInt 250), (''protein_g'', PInt 30), (''fat_g'', PInt 8),
                    (''carbs_g'', PInt 5)],
             PDict [(''calories'', PInt 50), (''protein_g'', PInt 4), (''fat_g'', PInt 0),
                    (''carbs_g'', PInt 10)],
             PNone] \<and>
   calculate_totals
        [PDict [(''calories'', PInt 50), (''protein_g'', PInt 4), (''fat_g'', PInt 0),
                (''carbs_g'', PInt 10)],
         PNone,
         PDict [(''calories'', PInt 250), (''protein_g'', PInt 30), (''fat_g'', PInt 8),
                (''carbs_g'', PInt 5)]]
     = calculate_totals
        [PDict [(''calories'', PInt 250), (''protein_g'', PInt 30), (''fat_g'', PInt 8),
                (''carbs_g'', PInt 5)],
         PDict [(''calories'', PInt 50), (''protein_g'', PInt 4), (''fat_g'', PInt 0),
                (''carbs_g'', PInt 10)],
         PNone]"
proof -
  have p: "mset [PDict [(''calories'', PInt 50), (''protein_g'', PInt 4), (''fat_g'', PInt 0),
                        (''carbs_g'', PInt 10)],
                 PNone,
                 PDict [(''calories'', PInt 250), (''protein_g'', PInt 30), (''fat_g'', PInt 8),
                        (''carbs_g'', PInt 5)]]
     = mset [PDict [(''calories'', PInt 250), (''protein_g'', PInt 30), (''fat_g'', PInt 8),
                    (''carbs_g'', PInt 5)],
             PDict [(''calories'', PInt 50), (''protein_g'', PInt 4), (''fat_g'', PInt 0),
                    (''carbs_g'', PInt 10)],
             PNone]"
    by (simp add: add_mset_commute)
  have ok: "\<forall>d \<in> set [PDict [(''calories'', PInt 250), (''protein_g'', PInt 30),
                               (''fat_g'', PInt 8), (''carbs_g'', PInt 5)],
                        PDict [(''calories'', PInt 50), (''protein_g'', PInt 4),
                               (''fat_g'', PInt 0), (''carbs_g'', PInt 10)],
                        PNone]. entry_ok d"
    by (simp add: entry_ok_def integer_record_def int_field_def)
  show ?thesis
    using p calculate_totals_order_independent [OF p ok] by simp
qed

text \<open>
  Claim C3 as it was stated fails on records with float fields: the same three records
  give the calories total \<^verbatim>\<open>0.0\<close> in the order \<^verbatim>\<open>1e16\<close>, \<^verbatim>\<open>1.0\<close>, \<^verbatim>\<open>-1e16\<close>
  and the total \<^verbatim>\<open>1.0\<close> in the order \<^verbatim>\<open>1e16\<close>, \<^verbatim>\<open>-1e16\<close>, \<^verbatim>\<open>1.0\<close>.
\<close>

theorem calculate_totals_float_order_dependent:
  "mset
     [PDict [(''calories'', PFloat (Fin 10000000000000000 0)), (''protein_g'', PInt 0),
             (''fat_g'', PInt 0), (''carbs_g'', PInt 0)],
      PDict [(''calories'', PFloat (Fin (- 10000000000000000) 0)), (''protein_g'', PInt 0),
             (''fat_g'', PInt 0), (''carbs_g'', PInt 0)],
      PDict [(''calories'', PFloat (Fin 1 0)), (''protein_g'', PInt 0),
             (''fat_g'', PInt 0), (''carbs_g'', PInt 0)]]
     = mset
     [PDict [(''calories'', PFloat (Fin 10000000000000000 0)), (''protein_g'', PInt 0),
             (''fat_g'', PInt 0), (''carbs_g'', PInt 0)],
      PDict [(''calories'', PFloat (Fin 1 0)), (''protein_g'', PInt 0),
             (''fat_g'', PInt 0), (''carbs_g'', PInt 0)],
      PDict [(''calories'', PFloat (Fin (- 10000000000000000) 0)), (''protein_g'', PInt 0),
             (''fat_g'', PInt 0), (''carbs_g'', PInt 0)]] \<and>
   calculate_totals
     [PDict [(''calories'', PFloat (Fin 10000000000000000 0)), (''protein_g'', PInt 0),
             (''fat_g'', PInt 0), (''carbs_g'', PInt 0)],
      PDict [(''calories'', PFloat (Fin 1 0)), (''protein_g'', PInt 0),
             (''fat_g'', PInt 0), (''carbs_g'', PInt 0)],
      PDict [(''calories'', PFloat (Fin (- 10000000000000000) 0)), (''protein_g'', PInt 0),
             (''fat_g'', PInt 0), (''carbs_g'', PInt 0)]]
     = Inr [(''calories'', NFloat (Fin 0 0)), (''protein_g'', NInt 0), (''fat_g'', NInt 0),
            (''carbs_g'', NInt 0)] \<and>
   calculate_totals
     [PDict [(''calories'', PFloat (Fin 10000000000000000 0)), (''protein_g'', PInt 0),
             (''fat_g'', PInt 0), (''carbs_g'', PInt 0)],
      PDict [(''calories'', PFloat (Fin (- 10000000000000000) 0)), (''protein_g'', PInt 0),
             (''fat_g'', PInt 0), (''carbs_g'', PInt 0)],
      PDict [(''calories'', PFloat (Fin 1 0)), (''protein_g'', PInt 0),
             (''fat_g'', PInt 0), (''carbs_g'', PInt 0)]]
     = Inr [(''calories'', NFloat (Fin 1 0)), (''protein_g'', NInt 0), (''fat_g'', NInt 0),
            (''carbs_g'', NInt 0)]"
  by (simp add: calculate_totals_def add_record_def add_field_def and_then_def
        int_to_float_zero Let_def round_double_zero round_double_one round_double_1e16
        round_double_1e16_plus_1
        add_mset_commute)

text \<open>
  Claim C4. Absent records are skipped: a null entry inserted at any position of any list
  leaves the outcome of \<open>calculate_totals\<close> as it is without that entry (the same
  totals, and no failure that the list without the entry does not have).
\<close>

theorem calculate_totals_skips_null:
  "calculate_totals (xs @ PNone # ys) = calculate_totals (xs @ ys)"
  by (simp add: calculate_totals_def totals_loop_skip_none)

text \<open>
  Claim C5. On the three records with calories (250, 50, 120), protein (30, 4, 0), fat
  (8, 0, 14) and carbs (5, 10, 0), \<open>calculate_totals\<close> returns calories 420, protein 34,
  fat 22 and carbs 15.
\<close>

theorem calculate_totals_scenario:
  "calculate_totals
     [PDict [(''calories'', PInt 250), (''protein_g'', PInt 30), (''fat_g'', PInt 8),
             (''carbs_g'', PInt 5)],
      PDict [(''calories'', PInt 50), (''protein_g'', PInt 4), (''fat_g'', PInt 0),
             (''carbs_g'', PInt 10)],
      PDict [(''calories'', PInt 120), (''protein_g'', PInt 0), (''fat_g'', PInt 14),
             (''carbs_g'', PInt 0)]]
     = Inr [(''calories'', NInt 420), (''protein_g'', NInt 34), (''fat_g'', NInt 22),
            (''carbs_g'', NInt 15)]"
  by (simp add: calculate_totals_def add_record_def add_field_def and_then_def)

text \<open>
  Claim C9. On the empty list, and on a list of null entries only, \<open>calculate_totals\<close>
  returns the dictionary with exactly the four keys calories, protein_g, fat_g and carbs_g,
  each at the integer zero.
\<close>

theorem calculate_totals_empty:
  "calculate_totals []
     = Inr [(''calories'', NInt 0), (''protein_g'', NInt 0), (''fat_g'', NInt 0),
            (''carbs_g'', NInt 0)] \<and>
   calculate_totals (replicate n PNone)
     = Inr [(''calories'', NInt 0), (''protein_g'', NInt 0), (''fat_g'', NInt 0),
            (''carbs_g'', NInt 0)]"
  by (induction n) (simp_all add: calculate_totals_def)

section \<open>Properties of the nutrition resolver\<close>

lemma main_loop_single:
  "main_loop cfg svc model [(ingredient, quantity)] nutrition_data w =
     (case resolve_nutrition cfg svc model ingredient quantity w of
        (Inl e, w1) \<Rightarrow> (Inl e, w1)
      | (Inr data, w1) \<Rightarrow> (Inr (nutrition_data @ [data]), w1))"
  by (simp split: prod.split sum.split)


text \<open>
  Claim C2, as amended. When the lookup service answers, the resolver has made exactly one
  request. If the status is not 200, the resolved value is the estimator's record (never
  null). If the status is 200 and the body parses to a truthy value, that payload is the
  resolved value and the estimator is not called. If the status is 200 and the parsed
  payload is falsy (null, false, 0, an empty string, array or object), the resolver falls
  back to the estimator's record as well.
\<close>

theorem resolve_nutrition_fallback:
  assumes "svc (sent w) (nutrition_request cfg ingredient quantity) = Inr resp"
  shows "sent (snd (resolve_nutrition cfg svc model ingredient quantity w))
           = sent w @ [nutrition_request cfg ingredient quantity] \<and>
         (status_code resp \<noteq> 200 \<longrightarrow>
            fst (resolve_nutrition cfg svc model ingredient quantity w)
              = Inr (PDict [(''calories'', PInt 250), (''protein_g'', PInt 30),
                            (''fat_g'', PInt 8), (''carbs_g'', PInt 5)]) \<and>
            estimator_calls (snd (resolve_nutrition cfg svc model ingredient quantity w))
              = estimator_calls w @ [(ingredient, quantity)]) \<and>
         (status_code resp = 200 \<and> json_result resp = Inr payload \<and> truthy payload \<longrightarrow>
            fst (resolve_nutrition cfg svc model ingredient quantity w) = Inr payload \<and>
            estimator_calls (snd (resolve_nutrition cfg svc model ingredient quantity w))
              = estimator_calls w) \<and>
         (status_code resp = 200 \<and> json_result resp = Inr payload \<and> \<not> truthy payload \<longrightarrow>
            fst (resolve_nutrition cfg svc model ingredient quantity w)
              = Inr (PDict [(''calories'', PInt 250), (''protein_g'', PInt 30),
                            (''fat_g'', PInt 8), (''carbs_g'', PInt 5)]) \<and>
            estimator_calls (snd (resolve_nutrition cfg svc model ingredient quantity w))
              = estimator_calls w @ [(ingredient, quantity)])"
  using assms
  by (cases "json_result resp")
     (simp_all add: resolve_nutrition_def get_nutrition_data_def Let_def
        estimate_macronutrients_with_vision_model_def)

text \<open>
  The amended claim at three mocked services: status 404, status 200 with the payload
  \<^verbatim>\<open>{"foods": []}\<close>, and status 200 with the payload \<^verbatim>\<open>null\<close>.
\<close>

theorem resolve_nutrition_fallback_witness:
  "fst (resolve_nutrition no_credentials
          (mock_service 404 (PDict [(''message'', PStr ''not found'')])) ()
          ''broccoli'' ''150g'' fresh_world)
     = Inr (PDict [(''calories'', PInt 250), (''protein_g'', PInt 30), (''fat_g'', PInt 8),
                   (''carbs_g'', PInt 5)]) \<and>
   fst (resolve_nutrition no_credentials (mock_service 200 (PDict [(''foods'', PList [])])) ()
          ''broccoli'' ''150g'' fresh_world)
     = Inr (PDict [(''foods'', PList [])]) \<and>
   estimator_calls
     (snd (resolve_nutrition no_credentials (mock_service 200 (PDict [(''foods'', PList [])])) ()
          ''broccoli'' ''150g'' fresh_world)) = [] \<and>
   fst (resolve_nutrition no_credentials (mock_service 200 PNone) () ''broccoli'' ''150g''
          fresh_world)
     = Inr (PDict [(''calories'', PInt 250), (''protein_g'', PInt 30), (''fat_g'', PInt 8),
                   (''carbs_g'', PInt 5)])"
  using
    resolve_nutrition_fallback
      [of "mock_service 404 (PDict [(''message'', PStr ''not found'')])" fresh_world
          no_credentials "''broccoli''" "''150g''"
          "\<lparr>status_code = 404, json_result = Inr (PDict [(''message'', PStr ''not found'')])\<rparr>"
          "()" PNone]
    resolve_nutrition_fallback
      [of "mock_service 200 (PDict [(''foods'', PList [])])" fresh_world
          no_credentials "''broccoli''" "''150g''"
          "\<lparr>status_code = 200, json_result = Inr (PDict [(''foods'', PList [])])\<rparr>"
          "()" "PDict [(''foods'', PList [])]"]
    resolve_nutrition_fallback
      [of "mock_service 200 PNone" fresh_world
          no_credentials "''broccoli''" "''150g''"
          "\<lparr>status_code = 200, json_result = Inr PNone\<rparr>"
          "()" PNone]
  by (simp add: mock_service_def fresh_world_def)

text \<open>
  Claim C2 as it was stated fails: a service that answers 200 with the empty JSON object
  as payload has its payload discarded, and the estimator is called.
\<close>

theorem resolve_nutrition_empty_payload:
  "mock_service 200 (PDict []) (sent fresh_world)
       (nutrition_request no_credentials ''broccoli'' ''150g'')
     = Inr \<lparr>status_code = 200, json_result = Inr (PDict [])\<rparr> \<and>
   fst (resolve_nutrition no_credentials (mock_service 200 (PDict [])) () ''broccoli'' ''150g''
          fresh_world)
     \<noteq> Inr (PDict []) \<and>
   estimator_calls
     (snd (resolve_nutrition no_credentials (mock_service 200 (PDict [])) () ''broccoli''
          ''150g'' fresh_world))
     = [(''broccoli'', ''150g'')]"
  by (simp add: resolve_nutrition_def get_nutrition_data_def Let_def mock_service_def
        fresh_world_def estimate_macronutrients_with_vision_model_def)

section \<open>Properties of the response renderer\<close>

lemma summary_lines_raises:
  "summary_lines resp (p # ps) = Inl (NameError ''summarize_nutrition'')"
  by (cases p) (simp add: summarize_nutrition_def and_then_def)

lemma generate_chatbot_response_raises:
  assumes "zip ingredients nutrition_data \<noteq> []"
  shows "generate_chatbot_response ingredients nutrition_data totals assessment
           = Inl (NameError ''summarize_nutrition'')"
proof -
  from assms obtain p ps where "zip ingredients nutrition_data = p # ps"
    by (cases "zip ingredients nutrition_data") auto
  then show ?thesis
    by (simp add: generate_chatbot_response_def summary_lines_raises and_then_def)
qed

lemma sublist_mid: "sublist xs (ps @ xs @ ss)"
  by (auto simp: sublist_def)

lemma generate_chatbot_response_no_lines:
  assumes "zip ingredients nutrition_data = []"
    and "map_of totals ''calories'' = Some c" and "map_of totals ''protein_g'' = Some p"
    and "map_of totals ''fat_g'' = Some f" and "map_of totals ''carbs_g'' = Some b"
    and "\<not> is_healthy assessment"
  shows "generate_chatbot_response ingredients nutrition_data totals assessment =
    Inr ((''Here'' @ [CHR 0x27] @ ''s the analysis of your meal:'' @ nl @ nl @ nl @
         ''**Total Macronutrients**:'' @ nl @ ''- Calories: '' @ str_int c @ '' kcal'' @ nl @
         ''- Protein: '' @ str_int p @ ''g'' @ nl @ ''- Fat: '' @ str_int f @ ''g'' @ nl @
         ''- Carbs: '' @ str_int b @ ''g'' @ nl @ nl @
         ''This meal is **'') @ ''unhealthy'' @ ''**. Here are some healthier alternatives:'' @ nl @
         join nl (suggestions assessment) @ nl)"
  unfolding generate_chatbot_response_def assms(1)
  using assms(2-) by (simp add: and_then_def total_text_def)

text \<open>
  Where no per-ingredient line is rendered (the zipped pairing is empty) and the totals
  hold the four fields, an unhealthy assessment with one suggestion gives a report that
  contains the word \<open>unhealthy\<close> and the suggestion.
\<close>

lemma unhealthy_report_without_lines:
  assumes "zip ingredients nutrition_data = []"
    and "map_of totals ''calories'' = Some c" and "map_of totals ''protein_g'' = Some p"
    and "map_of totals ''fat_g'' = Some f" and "map_of totals ''carbs_g'' = Some b"
    and "\<not> is_healthy assessment" and "suggestions assessment = [s]"
  shows "\<exists>report.
           generate_chatbot_response ingredients nutrition_data totals assessment = Inr report
           \<and> sublist ''unhealthy'' report \<and> sublist s report"
proof -
  let ?pre = "''Here'' @ [CHR 0x27] @ ''s the analysis of your meal:'' @ nl @ nl @ nl @
         ''**Total Macronutrients**:'' @ nl @ ''- Calories: '' @ str_int c @ '' kcal'' @ nl @
         ''- Protein: '' @ str_int p @ ''g'' @ nl @ ''- Fat: '' @ str_int f @ ''g'' @ nl @
         ''- Carbs: '' @ str_int b @ ''g'' @ nl @ nl @
         ''This meal is **''"
  let ?mid = "''**. Here are some healthier alternatives:'' @ nl"
  have r: "generate_chatbot_response ingredients nutrition_data totals assessment
             = Inr (?pre @ ''unhealthy'' @ ?mid @ s @ nl)"
    using generate_chatbot_response_no_lines [OF assms(1-6)] assms(7) by simp
  have 1: "sublist ''unhealthy'' (?pre @ ''unhealthy'' @ ?mid @ s @ nl)"
    by (rule sublist_mid)
  have "sublist s ((?pre @ ''unhealthy'' @ ?mid) @ s @ nl)"
    by (rule sublist_mid)
  then have 2: "sublist s (?pre @ ''unhealthy'' @ ?mid @ s @ nl)"
    by (simp only: append_assoc)
  from r 1 2 show ?thesis by blast
qed

text \<open>
  Claim C6. With an assessment that is unhealthy and suggests
  \<open>Use grilled tofu instead of chicken\<close>, the renderer should return a report that
  contains \<open>unhealthy\<close> and the suggestion. On the ingredients, records and totals of
  the end-to-end scenario it returns no report: the first per-ingredient line raises
  NameError.
\<close>

theorem generate_chatbot_response_scenario_raises:
  "generate_chatbot_response
     [(''chicken breast'', ''200g''), (''broccoli'', ''150g''), (''olive oil'', ''1 tbsp'')]
     [PDict [(''calories'', PInt 250), (''protein_g'', PInt 30), (''fat_g'', PInt 8),
             (''carbs_g'', PInt 5)],
      PDict [(''calories'', PInt 50), (''protein_g'', PInt 4), (''fat_g'', PInt 0),
             (''carbs_g'', PInt 10)],
      PDict [(''calories'', PInt 120), (''protein_g'', PInt 0), (''fat_g'', PInt 14),
             (''carbs_g'', PInt 0)]]
     [(''calories'', 420), (''protein_g'', 34), (''fat_g'', 22), (''carbs_g'', 15)]
     \<lparr>is_healthy = False, suggestions = [''Use grilled tofu instead of chicken'']\<rparr>
   = Inl (NameError ''summarize_nutrition'')"
  by (simp add: generate_chatbot_response_def summarize_nutrition_def and_then_def)

text \<open>
  Claim C10. For every non-empty ingredient mapping paired with a non-empty nutrition-data
  list, \<open>generate_chatbot_response\<close> raises NameError for \<open>summarize_nutrition\<close>
  instead of returning a report; it returns a string only when the zipped pairing is
  empty.
\<close>

theorem generate_chatbot_response_name_error:
  "(ingredients \<noteq> [] \<and> nutrition_data \<noteq> [] \<longrightarrow>
      generate_chatbot_response ingredients nutrition_data totals assessment
        = Inl (NameError ''summarize_nutrition'')) \<and>
   (generate_chatbot_response ingredients nutrition_data totals assessment = Inr report \<longrightarrow>
      zip ingredients nutrition_data = [])"
proof (intro conjI impI)
  assume "ingredients \<noteq> [] \<and> nutrition_data \<noteq> []"
  then have "zip ingredients nutrition_data \<noteq> []"
    by (cases ingredients; cases nutrition_data) auto
  then show "generate_chatbot_response ingredients nutrition_data totals assessment
        = Inl (NameError ''summarize_nutrition'')"
    by (rule generate_chatbot_response_raises)
next
  assume r: "generate_chatbot_response ingredients nutrition_data totals assessment = Inr report"
  show "zip ingredients nutrition_data = []"
  proof (rule ccontr)
    assume "zip ingredients nutrition_data \<noteq> []"
    from generate_chatbot_response_raises [OF this] r show False by simp
  qed
qed

text \<open>
  The claim at a one-ingredient mapping paired with one record (the call raises), and at
  the empty mapping (the pairing is empty and the report is returned).
\<close>

theorem generate_chatbot_response_name_error_witness:
  "generate_chatbot_response [(''chicken breast'', ''200g'')]
     [PDict [(''calories'', PInt 250), (''protein_g'', PInt 30), (''fat_g'', PInt 8),
             (''carbs_g'', PInt 5)]]
     [(''calories'', 250), (''protein_g'', 30), (''fat_g'', 8), (''carbs_g'', 5)]
     \<lparr>is_healthy = False, suggestions = [''Use grilled tofu instead of chicken'']\<rparr>
     = Inl (NameError ''summarize_nutrition'') \<and>
   generate_chatbot_response []
     [PDict [(''calories'', PInt 250), (''protein_g'', PInt 30), (''fat_g'', PInt 8),
             (''carbs_g'', PInt 5)]]
     [(''calories'', 250), (''protein_g'', 30), (''fat_g'', 8), (''carbs_g'', 5)]
     \<lparr>is_healthy = False, suggestions = [''Use grilled tofu instead of chicken'']\<rparr>
     = Inr (''Here'' @ [CHR 0x27] @ ''s the analysis of your meal:'' @ nl @ nl @ nl @
            ''**Total Macronutrients**:'' @ nl @ ''- Calories: 250 kcal'' @ nl @
            ''- Protein: 30g'' @ nl @ ''- Fat: 8g'' @ nl @ ''- Carbs: 5g'' @ nl @ nl @
            ''This meal is **unhealthy**. Here are some healthier alternatives:'' @ nl @
            ''Use grilled tofu instead of chicken'' @ nl) \<and>
   zip ([] :: (string \<times> string) list)
     [PDict [(''calories'', PInt 250), (''protein_g'', PInt 30), (''fat_g'', PInt 8),
             (''carbs_g'', PInt 5)]] = []"
proof -
  have r: "generate_chatbot_response []
     [PDict [(''calories'', PInt 250), (''protein_g'', PInt 30), (''fat_g'', PInt 8),
             (''carbs_g'', PInt 5)]]
     [(''calories'', 250), (''protein_g'', 30), (''fat_g'', 8), (''carbs_g'', 5)]
     \<lparr>is_healthy = False, suggestions = [''Use grilled tofu instead of chicken'']\<rparr>
     = Inr (''Here'' @ [CHR 0x27] @ ''s the analysis of your meal:'' @ nl @ nl @ nl @
            ''**Total Macronutrients**:'' @ nl @ ''- Calories: 250 kcal'' @ nl @
            ''- Protein: 30g'' @ nl @ ''- Fat: 8g'' @ nl @ ''- Carbs: 5g'' @ nl @ nl @
            ''This meal is **unhealthy**. Here are some healthier alternatives:'' @ nl @
            ''Use grilled tofu instead of chicken'' @ nl)"
    by (simp add: generate_chatbot_response_def and_then_def total_text_def str_int_def
          str_nat.simps digit_char_def)
  show ?thesis
    using r
      generate_chatbot_response_name_error
        [of "[(''chicken breast'', ''200g'')]"
            "[PDict [(''calories'', PInt 250), (''protein_g'', PInt 30), (''fat_g'', PInt 8),
                     (''carbs_g'', PInt 5)]]"
            "[(''calories'', 250), (''protein_g'', 30), (''fat_g'', 8), (''carbs_g'', 5)]"
            "\<lparr>is_healthy = False, suggestions = [''Use grilled tofu instead of chicken'']\<rparr>"]
      generate_chatbot_response_name_error
        [of "[]"
            "[PDict [(''calories'', PInt 250), (''protein_g'', PInt 30), (''fat_g'', PInt 8),
                     (''carbs_g'', PInt 5)]]"
            "[(''calories'', 250), (''protein_g'', 30), (''fat_g'', 8), (''carbs_g'', 5)]"
            "\<lparr>is_healthy = False, suggestions = [''Use grilled tofu instead of chicken'']\<rparr>"]
    by simp
qed

end
